theory Spec2Isabelle
  imports Main "HOL-Library.AList" "HOL-Library.Sublist"
begin

section \<open>The IMAP e-mail trigger (EmailReadImapV1.node.ts)\<close>

text \<open>
  A shallow embedding of \<^verbatim>\<open>EmailReadImapV1.trigger\<close> and of \<^verbatim>\<open>parseRawEmail\<close>.
  Everything the node awaits from a collaborator (the IMAP connection, the MIME parser,
  the binary-data helper, \<^verbatim>\<open>JSON.parse\<close>) is a field of the record \<open>collaborators\<close>;
  a rejected promise or a thrown exception is the \<open>Inl\<close> of a sum. The field
  \<open>first_rejection\<close> is the timing of the promises: of several that reject, which one
  rejects first.
\<close>

subsection \<open>Errors and parameters\<close>

datatype error =
    NodeOperationError string  \<comment> \<open>\<^verbatim>\<open>new NodeOperationError(this.getNode(), msg)\<close>\<close>
  | TypeError                  \<comment> \<open>reading a property of \<^verbatim>\<open>undefined\<close>\<close>
  | ConnectionError string     \<comment> \<open>an error of the connection, carrying its \<^verbatim>\<open>code\<close>\<close>
  | Rejected string            \<comment> \<open>any other rejection of a collaborator\<close>

text \<open>The parameter \<^verbatim>\<open>format\<close> is an option list: \<^verbatim>\<open>'raw'\<close>, \<^verbatim>\<open>'resolved'\<close>, \<^verbatim>\<open>'simple'\<close>.\<close>

datatype format = Raw | Resolved | Simple

text \<open>The parameter \<^verbatim>\<open>postProcessAction\<close> is an option list: \<^verbatim>\<open>'read'\<close>, \<^verbatim>\<open>'nothing'\<close>.\<close>

datatype post_process_action = Read | Nothing

text \<open>A search criterion is a string or a pair such as \<^verbatim>\<open>['UID', '5:*']\<close>.\<close>

datatype criterion = Flag string | Pair string string

record fetch_options =
  bodies :: "string list"
  markSeen :: bool
  want_struct :: bool

record node_options =
  customEmailConfig :: "string option"
  allowUnauthorizedCerts :: bool
  forceReconnect :: "nat option"

record parameters =
  mailbox :: string
  postProcessAction :: post_process_action
  node_format :: format
  downloadAttachments :: bool
  dataPropertyAttachmentsPrefixName :: string
  options :: node_options

subsection \<open>Messages\<close>

text \<open>
  The body of a fetched section is a buffer, except for the section \<^verbatim>\<open>HEADER\<close>, which
  the connection library hands over as a record from header names to lists of values.
\<close>

datatype body = Buffer string | HeaderRecord "(string \<times> string list) list"

record message_part =
  which :: string
  body :: body

text \<open>
  \<^verbatim>\<open>part.disposition\<close>, with its \<^verbatim>\<open>type\<close> and its \<^verbatim>\<open>params\<close>; the parameters may
  be missing, and so may the \<^verbatim>\<open>filename\<close> among them.
\<close>

record disposition_params =
  filename :: "string option"

record mime_disposition =
  dtype :: string
  disp_params :: "disposition_params option"

record mime_part =
  ptype :: string
  subtype :: string
  disposition :: "mime_disposition option"

text \<open>\<^verbatim>\<open>message.attributes.uid\<close>, \<^verbatim>\<open>message.attributes.struct\<close> and \<^verbatim>\<open>message.parts\<close>.\<close>

record 's message =
  uid :: nat
  struct :: "'s option"
  parts :: "message_part list"

record attachment =
  content :: string
  att_filename :: "string option"
  contentType :: string

text \<open>What \<^verbatim>\<open>simpleParser\<close> returns: the header lines, the attachments, and all other fields.\<close>

record 'p parsed_mail =
  headerLines :: "(string \<times> string) list"
  attachments :: "attachment list option"
  other_fields :: 'p

subsection \<open>Events\<close>

datatype 'p json =
    RawJson body
  | SimpleJson (textHtml: string) (textPlain: string)
      (metadata: "(string \<times> string) list") (top_level: "(string \<times> string) list")
  | ResolvedJson (headers: "(string \<times> string) list") 'p

record ('b, 'p) node_execution_data =
  json :: "'p json"
  binary :: "(string \<times> 'b) list option"

subsection \<open>Collaborators\<close>

record tls_options =
  rejectUnauthorized :: "bool option"
  servername :: "string option"

record credentials =
  user :: string
  password :: string
  host :: string
  port :: nat
  secure :: bool

record imap_config =
  imap_user :: string
  imap_password :: string
  imap_host :: string
  imap_port :: nat
  imap_tls :: bool
  authTimeout :: nat
  tlsOptions :: "tls_options option"

record ('s, 'b, 'p) collaborators =
  getParts :: "'s option \<Rightarrow> error + mime_part list"
  getPartData :: "'s message \<Rightarrow> mime_part \<Rightarrow> error + string"
  prepareBinaryData :: "string \<Rightarrow> string option \<Rightarrow> string option \<Rightarrow> error + 'b"
  simpleParser :: "body \<Rightarrow> error + 'p parsed_mail"
  search :: "criterion list \<Rightarrow> fetch_options \<Rightarrow> error + 's message list"
  addFlags :: "nat list \<Rightarrow> string \<Rightarrow> error option"
  imapConnect :: "imap_config \<Rightarrow> error option"
  openBox :: "string \<Rightarrow> error option"
  json_parse :: "string \<Rightarrow> criterion list option"
  first_rejection :: "error list \<Rightarrow> nat"

subsection \<open>Strings\<close>

text \<open>\<^verbatim>\<open>toUpperCase\<close>, on the ASCII letters.\<close>

definition upper_char :: "char \<Rightarrow> char" where
  "upper_char c =
     (case map_of (zip ''abcdefghijklmnopqrstuvwxyz'' ''ABCDEFGHIJKLMNOPQRSTUVWXYZ'') c of
        Some u \<Rightarrow> u
      | None \<Rightarrow> c)"

definition toUpperCase :: "string \<Rightarrow> string" where
  "toUpperCase s = map upper_char s"

text \<open>
  A number inside a template literal, \<^verbatim>\<open>`${i}`\<close>: its decimal digits, as for every
  integer below \<open>10\<^sup>2\<^sup>1\<close>, which uids and indices are.
\<close>

definition digit_char :: "nat \<Rightarrow> char" where
  "digit_char d = ''0123456789'' ! d"

fun decimal :: "nat \<Rightarrow> string" where
  "decimal n = (if n < 10 then [digit_char n] else decimal (n div 10) @ [digit_char (n mod 10)])"

declare decimal.simps [simp del]

text \<open>\<^verbatim>\<open>trim\<close>, on the ASCII white space.\<close>

definition is_space :: "char \<Rightarrow> bool" where
  "is_space c = (let n = (of_char c :: nat) in n = 32 \<or> (9 \<le> n \<and> n \<le> 13))"

definition trim :: "string \<Rightarrow> string" where
  "trim s = rev (dropWhile is_space (rev (dropWhile is_space s)))"

subsection \<open>\<^verbatim>\<open>parseRawEmail\<close>\<close>

text \<open>
  The loop \<^verbatim>\<open>for (let i = 0; i < attachments.length; i++)\<close>: the attachment at index
  \<open>i\<close> is stored under the key \<^verbatim>\<open>`${dataPropertyNameDownload}${i}`\<close>.
\<close>

fun store_attachments ::
  "('s, 'b, 'p) collaborators \<Rightarrow> string \<Rightarrow> attachment list \<Rightarrow> nat \<Rightarrow> (string \<times> 'b) list
     \<Rightarrow> error + (string \<times> 'b) list" where
  "store_attachments env dataPropertyNameDownload [] i binaryData = Inr binaryData"
| "store_attachments env dataPropertyNameDownload (a # as) i binaryData =
     (case prepareBinaryData env (content a) (att_filename a) (Some (contentType a)) of
        Inl e \<Rightarrow> Inl e
      | Inr b \<Rightarrow>
          store_attachments env dataPropertyNameDownload as (Suc i)
            (AList.update (dataPropertyNameDownload @ decimal i) b binaryData))"

definition parseRawEmail ::
  "('s, 'b, 'p) collaborators \<Rightarrow> body \<Rightarrow> string \<Rightarrow> error + ('b, 'p) node_execution_data" where
  "parseRawEmail env messageEncoded dataPropertyNameDownload =
     (case simpleParser env messageEncoded of
        Inl e \<Rightarrow> Inl e
      | Inr responseData \<Rightarrow>
          (let hdrs = fold (\<lambda>(key, line) h. AList.update key line h) (headerLines responseData) []
           in case (case attachments responseData of
                      None \<Rightarrow> Inr []
                    | Some atts \<Rightarrow> store_attachments env dataPropertyNameDownload atts 0 []) of
                Inl e \<Rightarrow> Inl e
              | Inr binaryData \<Rightarrow>
                  Inr \<lparr> json = ResolvedJson hdrs (other_fields responseData),
                        binary = (if length binaryData \<noteq> 0 then Some binaryData else None) \<rparr>))"

subsection \<open>\<^verbatim>\<open>getText\<close> and \<^verbatim>\<open>getAttachment\<close>\<close>

definition getText ::
  "('s, 'b, 'p) collaborators \<Rightarrow> mime_part list \<Rightarrow> 's message \<Rightarrow> string \<Rightarrow> string" where
  "getText env ps message sub =
     (if struct message = None then []
      else
        (let textParts =
               filter (\<lambda>part. toUpperCase (ptype part) = ''TEXT''
                          \<and> toUpperCase (subtype part) = toUpperCase sub) ps
         in case textParts of
              [] \<Rightarrow> []
            | part # _ \<Rightarrow>
                (case getPartData env message part of
                   Inr partData \<Rightarrow> partData
                 | Inl _ \<Rightarrow> [])))"

text \<open>
  The promise made for one attachment part: the part is fetched, and the callback of
  \<^verbatim>\<open>then\<close> hands the data and \<^verbatim>\<open>attachmentPart.disposition.params.filename\<close> to
  \<^verbatim>\<open>prepareBinaryData\<close>. Reading that file name throws a \<^verbatim>\<open>TypeError\<close> when the
  disposition or its parameters are missing.
\<close>

definition fetch_attachment ::
  "('s, 'b, 'p) collaborators \<Rightarrow> 's message \<Rightarrow> mime_part \<Rightarrow> error + 'b" where
  "fetch_attachment env message attachmentPart =
     (case getPartData env message attachmentPart of
        Inl e \<Rightarrow> Inl e
      | Inr partData \<Rightarrow>
          (case disposition attachmentPart of
             None \<Rightarrow> Inl TypeError
           | Some d \<Rightarrow>
               (case disp_params d of
                  None \<Rightarrow> Inl TypeError
                | Some ps \<Rightarrow> prepareBinaryData env partData (filename ps) None)))"

text \<open>
  \<^verbatim>\<open>Promise.all\<close>: the values in the order of the promises when all of them fulfil;
  otherwise the rejection that comes first in time, which is one of the rejections.
\<close>

definition promise_all :: "('s, 'b, 'p) collaborators \<Rightarrow> (error + 'a) list \<Rightarrow> error + 'a list" where
  "promise_all env settled =
     (let rejections = List.map_filter (\<lambda>r. case r of Inl e \<Rightarrow> Some e | Inr _ \<Rightarrow> None) settled
      in if rejections = []
         then Inr (List.map_filter (\<lambda>r. case r of Inl _ \<Rightarrow> None | Inr v \<Rightarrow> Some v) settled)
         else Inl (rejections ! (first_rejection env rejections mod length rejections)))"

definition getAttachment ::
  "('s, 'b, 'p) collaborators \<Rightarrow> mime_part list \<Rightarrow> 's message \<Rightarrow> error + 'b list" where
  "getAttachment env ps message =
     (if struct message = None then Inr []
      else
        (let attachmentParts =
               filter (\<lambda>part. case disposition part of
                                  None \<Rightarrow> False
                                | Some d \<Rightarrow> toUpperCase (dtype d) = ''ATTACHMENT'') ps
         in promise_all env (map (fetch_attachment env message) attachmentParts)))"

subsection \<open>Formatting one message\<close>

definition parse_error :: error where
  "parse_error = NodeOperationError ''Email part could not be parsed.''"

text \<open>Format \<^verbatim>\<open>resolved\<close>: the section \<^verbatim>\<open>''\<close> is parsed by \<^verbatim>\<open>parseRawEmail\<close>.\<close>

definition format_resolved ::
  "('s, 'b, 'p) collaborators \<Rightarrow> string \<Rightarrow> 's message
     \<Rightarrow> error + ('b, 'p) node_execution_data" where
  "format_resolved env prefixName message =
     (case find (\<lambda>part. which part = []) (parts message) of
        None \<Rightarrow> Inl parse_error
      | Some part \<Rightarrow> parseRawEmail env (body part) prefixName)"

text \<open>Format \<^verbatim>\<open>raw\<close>: the body of the section \<^verbatim>\<open>TEXT\<close> as it is.\<close>

definition format_raw :: "'s message \<Rightarrow> error + ('b, 'p) node_execution_data" where
  "format_raw message =
     (case find (\<lambda>part. which part = ''TEXT'') (parts message) of
        None \<Rightarrow> Inl parse_error
      | Some part \<Rightarrow> Inr \<lparr> json = RawJson (body part), binary = None \<rparr>)"

definition topLevelProperties :: "string list" where
  "topLevelProperties = [''cc'', ''date'', ''from'', ''subject'', ''to'']"

text \<open>
  The own enumerable properties of a section body whose value has a non-zero
  \<^verbatim>\<open>length\<close>: the entries of a header record; a buffer has index keys only, and
  their values are numbers, which have no \<^verbatim>\<open>length\<close>.
\<close>

definition header_fields :: "body \<Rightarrow> (string \<times> string list) list" where
  "header_fields b = (case b of HeaderRecord h \<Rightarrow> h | Buffer _ \<Rightarrow> [])"

text \<open>
  The loop over \<^verbatim>\<open>Object.keys(messageBody)\<close>: the first value of every header that
  has one goes to the top level or into \<^verbatim>\<open>metadata\<close>. The state is the pair
  (top-level properties, metadata).
\<close>

definition set_property ::
  "string \<times> string list \<Rightarrow> (string \<times> string) list \<times> (string \<times> string) list
     \<Rightarrow> (string \<times> string) list \<times> (string \<times> string) list" where
  "set_property entry acc =
     (case entry of (propertyName, vals) \<Rightarrow>
        (case vals of
           [] \<Rightarrow> acc
         | v # _ \<Rightarrow>
             (if propertyName \<in> set topLevelProperties
              then (AList.update propertyName v (fst acc), snd acc)
              else (fst acc, AList.update propertyName v (snd acc)))))"

text \<open>The loop \<^verbatim>\<open>newEmail.binary[`${prefix}${i}`] = attachments[i]\<close>.\<close>

fun store_binaries :: "string \<Rightarrow> 'b list \<Rightarrow> nat \<Rightarrow> (string \<times> 'b) list \<Rightarrow> (string \<times> 'b) list" where
  "store_binaries prefixName [] i acc = acc"
| "store_binaries prefixName (a # as) i acc =
     store_binaries prefixName as (Suc i)
       (AList.update (prefixName @ decimal i) a acc)"

text \<open>
  Format \<^verbatim>\<open>simple\<close>. \<^verbatim>\<open>messageHeader[0].body\<close> is read without a check: with no
  section \<^verbatim>\<open>HEADER\<close> it is a property of \<^verbatim>\<open>undefined\<close>, a \<^verbatim>\<open>TypeError\<close>.
\<close>

definition format_simple ::
  "('s, 'b, 'p) collaborators \<Rightarrow> bool \<Rightarrow> string \<Rightarrow> 's message
     \<Rightarrow> error + ('b, 'p) node_execution_data" where
  "format_simple env download prefixName message =
     (case getParts env (struct message) of
        Inl e \<Rightarrow> Inl e
      | Inr ps \<Rightarrow>
          (let html = getText env ps message ''html'';
               plain = getText env ps message ''plain'';
               messageHeader = filter (\<lambda>part. which part = ''HEADER'') (parts message)
           in case messageHeader of
                [] \<Rightarrow> Inl TypeError
              | header # _ \<Rightarrow>
                  (let props = fold set_property (header_fields (body header)) ([], []);
                       js = SimpleJson html plain (snd props) (fst props)
                   in if download
                      then (case getAttachment env ps message of
                              Inl e \<Rightarrow> Inl e
                            | Inr atts \<Rightarrow>
                                Inr \<lparr> json = js,
                                      binary =
                                        (if length atts \<noteq> 0
                                         then Some (store_binaries
                                                      prefixName atts 0 [])
                                         else None) \<rparr>)
                      else Inr \<lparr> json = js, binary = None \<rparr>)))"

subsection \<open>\<^verbatim>\<open>getNewEmails\<close>\<close>

text \<open>
  The loop \<^verbatim>\<open>for (const message of results)\<close>. Its head is the same in the three
  branches of \<^verbatim>\<open>getNewEmails\<close>: a message whose uid is at most
  \<^verbatim>\<open>staticData.lastMessageUid\<close> is skipped; otherwise \<^verbatim>\<open>lastMessageUid\<close> is
  raised to its uid, and only then is the message formatted (by \<open>fmt\<close>, the rest of the
  loop body). An exception leaves the loop with \<^verbatim>\<open>staticData\<close> as it is by then.
\<close>

fun for_each_message ::
  "('s message \<Rightarrow> error + 'e) \<Rightarrow> 's message list \<Rightarrow> nat option \<Rightarrow> 'e list
     \<Rightarrow> nat option \<times> (error + 'e list)" where
  "for_each_message fmt [] lastUid newEmails = (lastUid, Inr newEmails)"
| "for_each_message fmt (message # rest) lastUid newEmails =
     (if (case lastUid of None \<Rightarrow> False | Some l \<Rightarrow> uid message \<le> l)
      then for_each_message fmt rest lastUid newEmails
      else
        (let lastUid' =
               (if (case lastUid of None \<Rightarrow> True | Some l \<Rightarrow> l < uid message)
                then Some (uid message) else lastUid)
         in case fmt message of
              Inl e \<Rightarrow> (lastUid', Inl e)
            | Inr newEmail \<Rightarrow> for_each_message fmt rest lastUid' (newEmails @ [newEmail])))"

definition fetchOptions :: "format \<Rightarrow> fetch_options" where
  "fetchOptions fm =
     (case fm of
        Resolved \<Rightarrow> \<lparr> bodies = [[]], markSeen = False, want_struct = True \<rparr>
      | _ \<Rightarrow> \<lparr> bodies = [''TEXT'', ''HEADER''], markSeen = False, want_struct = True \<rparr>)"

definition format_message ::
  "('s, 'b, 'p) collaborators \<Rightarrow> parameters \<Rightarrow> 's message
     \<Rightarrow> error + ('b, 'p) node_execution_data" where
  "format_message env params =
     (case node_format params of
        Resolved \<Rightarrow> format_resolved env (dataPropertyAttachmentsPrefixName params)
      | Simple \<Rightarrow>
          format_simple env (downloadAttachments params)
            (if downloadAttachments params then dataPropertyAttachmentsPrefixName params else [])
      | Raw \<Rightarrow> format_raw)"

text \<open>The flag \<^verbatim>\<open>'\\SEEN'\<close>: a backslash and the word SEEN.\<close>

definition seen_flag :: string where
  "seen_flag = CHR 0x5C # ''SEEN''"

text \<open>
  One fetch cycle: what it leaves in \<^verbatim>\<open>staticData.lastMessageUid\<close>, the calls of
  \<^verbatim>\<open>addFlags\<close> it made, and what it returned or threw.
\<close>

record ('b, 'p) fetch_cycle =
  lastMessageUid :: "nat option"
  addFlags_calls :: "(nat list \<times> string) list"
  returned :: "error + ('b, 'p) node_execution_data list"

definition getNewEmails ::
  "('s, 'b, 'p) collaborators \<Rightarrow> parameters \<Rightarrow> criterion list \<Rightarrow> nat option
     \<Rightarrow> ('b, 'p) fetch_cycle" where
  "getNewEmails env params searchCriteria lastUid =
     (case search env searchCriteria (fetchOptions (node_format params)) of
        Inl e \<Rightarrow> \<lparr> lastMessageUid = lastUid, addFlags_calls = [], returned = Inl e \<rparr>
      | Inr results \<Rightarrow>
          (case for_each_message (format_message env params) results lastUid [] of
             (lastUid', Inl e) \<Rightarrow>
               \<lparr> lastMessageUid = lastUid', addFlags_calls = [], returned = Inl e \<rparr>
           | (lastUid', Inr newEmails) \<Rightarrow>
               (if postProcessAction params = Read
                then
                  (let uidList = map uid results
                   in if length uidList > 0
                      then \<lparr> lastMessageUid = lastUid',
                             addFlags_calls = [(uidList, seen_flag)],
                             returned = (case addFlags env uidList seen_flag of
                                           Some e \<Rightarrow> Inl e
                                         | None \<Rightarrow> Inr newEmails) \<rparr>
                      else \<lparr> lastMessageUid = lastUid', addFlags_calls = [],
                             returned = Inr newEmails \<rparr>)
                else \<lparr> lastMessageUid = lastUid', addFlags_calls = [],
                       returned = Inr newEmails \<rparr>)))"

subsection \<open>The watcher: \<^verbatim>\<open>trigger\<close>, \<^verbatim>\<open>establishConnection\<close>, \<^verbatim>\<open>onMail\<close>\<close>

text \<open>What the node does to the outside, in the order in which it does it.\<close>

datatype ('b, 'p) action =
    Connect imap_config                            \<comment> \<open>\<^verbatim>\<open>imapConnect(config)\<close>\<close>
  | OpenBox string                                 \<comment> \<open>\<^verbatim>\<open>connection.openBox(mailbox)\<close>\<close>
  | End                                            \<comment> \<open>\<^verbatim>\<open>connection.end()\<close>\<close>
  | Search "criterion list" fetch_options          \<comment> \<open>\<^verbatim>\<open>imapConnection.search\<close>\<close>
  | AddFlags "nat list" string                     \<comment> \<open>\<^verbatim>\<open>imapConnection.addFlags\<close>\<close>
  | Emit "('b, 'p) node_execution_data list"       \<comment> \<open>\<^verbatim>\<open>this.emit([returnData])\<close>\<close>
  | EmitError error                                \<comment> \<open>\<^verbatim>\<open>this.emitError(error)\<close>\<close>
  | Resolve                                        \<comment> \<open>\<^verbatim>\<open>returnedPromise.resolve()\<close>\<close>

text \<open>
  The variables the closures of \<^verbatim>\<open>trigger\<close> share: \<^verbatim>\<open>staticData.lastMessageUid\<close>;
  whether \<^verbatim>\<open>connection\<close> is assigned; the array \<^verbatim>\<open>searchCriteria\<close> that the
  \<^verbatim>\<open>onMail\<close> of the current connection has captured; whether
  \<^verbatim>\<open>returnedPromise\<close> is resolved, and the errors whose \<^verbatim>\<open>then\<close>-callback waits
  for it; whether the reconnection interval is set.
\<close>

record ('b, 'p) watcher =
  staticData :: "nat option"
  connection :: bool
  searchCriteria :: "criterion list"
  returnedPromise :: bool
  waiting :: "error list"
  reconnectionInterval :: bool
  trace :: "('b, 'p) action list"

definition config_error :: error where
  "config_error = NodeOperationError ''Custom email config is not valid JSON.''"

definition imapConfig :: "credentials \<Rightarrow> parameters \<Rightarrow> imap_config" where
  "imapConfig creds params =
     (let tls = \<lparr> rejectUnauthorized =
                     (if allowUnauthorizedCerts (options params) then Some False else None),
                  servername = (if secure creds then Some (trim (host creds)) else None) \<rparr>
      in \<lparr> imap_user = user creds, imap_password = password creds,
           imap_host = trim (host creds), imap_port = port creds, imap_tls = secure creds,
           authTimeout = 20000,
           tlsOptions = (if rejectUnauthorized tls = None \<and> servername tls = None
                         then None else Some tls) \<rparr>)"

text \<open>
  \<^verbatim>\<open>establishConnection\<close>: the custom criteria are parsed first, and only then is the
  connection opened. The result is the array \<^verbatim>\<open>searchCriteria\<close> captured by the new
  connection's \<^verbatim>\<open>onMail\<close>.
\<close>

definition establishConnection ::
  "('s, 'b, 'p) collaborators \<Rightarrow> credentials \<Rightarrow> parameters \<Rightarrow> ('b, 'p) watcher
     \<Rightarrow> ('b, 'p) watcher \<times> (error + criterion list)" where
  "establishConnection env creds params w =
     (case (case customEmailConfig (options params) of
              None \<Rightarrow> Inr [Flag ''UNSEEN'']
            | Some s \<Rightarrow> (case json_parse env s of
                           None \<Rightarrow> Inl config_error
                         | Some parsed \<Rightarrow> Inr parsed)) of
        Inl e \<Rightarrow> (w, Inl e)
      | Inr criteria \<Rightarrow>
          (let config = imapConfig creds params;
               w' = w\<lparr> trace := trace w @ [Connect config] \<rparr>
           in case imapConnect env config of
                Some e \<Rightarrow> (w', Inl e)
              | None \<Rightarrow> (w', Inr criteria)))"

text \<open>\<^verbatim>\<open>connection = await establishConnection(); await connection.openBox(mailbox)\<close>.\<close>

definition connect_and_open ::
  "('s, 'b, 'p) collaborators \<Rightarrow> credentials \<Rightarrow> parameters \<Rightarrow> ('b, 'p) watcher
     \<Rightarrow> ('b, 'p) watcher \<times> (error + unit)" where
  "connect_and_open env creds params w =
     (case establishConnection env creds params w of
        (w1, Inl e) \<Rightarrow> (w1, Inl e)
      | (w1, Inr criteria) \<Rightarrow>
          (let w2 = w1\<lparr> connection := True, searchCriteria := criteria,
                        trace := trace w1 @ [OpenBox (mailbox params)] \<rparr>
           in case openBox env (mailbox params) of
                Some e \<Rightarrow> (w2, Inl e)
              | None \<Rightarrow> (w2, Inr ())))"

text \<open>
  The array \<^verbatim>\<open>searchCriteria\<close> after the first statement of \<^verbatim>\<open>onMail\<close>:
  \<^verbatim>\<open>searchCriteria.push(['UID', `${staticData.lastMessageUid}:*`])\<close> when
  \<^verbatim>\<open>lastMessageUid\<close> is defined.
\<close>

definition pushed_criteria :: "('b, 'p) watcher \<Rightarrow> criterion list" where
  "pushed_criteria w =
     (case staticData w of
        None \<Rightarrow> searchCriteria w
      | Some l \<Rightarrow> searchCriteria w @ [Pair ''UID'' (decimal l @ '':*'')])"

text \<open>
  \<^verbatim>\<open>onMail\<close>. The criterion \<^verbatim>\<open>['UID', `${lastMessageUid}:*`]\<close> is pushed onto the
  captured array itself. An error of the fetch cycle is emitted once \<^verbatim>\<open>returnedPromise\<close>
  is resolved: at once if it is, otherwise the callback waits.
\<close>

definition onMail ::
  "('s, 'b, 'p) collaborators \<Rightarrow> parameters \<Rightarrow> ('b, 'p) watcher \<Rightarrow> ('b, 'p) watcher" where
  "onMail env params w =
     (if connection w
      then
        (let criteria = pushed_criteria w;
             cycle = getNewEmails env params criteria (staticData w);
             w1 = w\<lparr> searchCriteria := criteria,
                      staticData := lastMessageUid cycle,
                      trace := trace w @ [Search criteria (fetchOptions (node_format params))]
                                 @ map (\<lambda>(uids, flag). AddFlags uids flag) (addFlags_calls cycle) \<rparr>
         in case returned cycle of
              Inr returnData \<Rightarrow>
                (if length returnData \<noteq> 0
                 then w1\<lparr> trace := trace w1 @ [Emit returnData] \<rparr>
                 else w1)
            | Inl e \<Rightarrow>
                (if returnedPromise w1
                 then w1\<lparr> trace := trace w1 @ [EmitError e] \<rparr>
                 else w1\<lparr> waiting := waiting w1 @ [e] \<rparr>))
      else w)"

text \<open>
  The handler \<^verbatim>\<open>conn.on('error', ...)\<close>, for an error with the given \<^verbatim>\<open>code\<close>: a
  reset connection is re-established, and a failure of that is only logged; any other
  error is emitted at once.
\<close>

definition on_error ::
  "('s, 'b, 'p) collaborators \<Rightarrow> credentials \<Rightarrow> parameters \<Rightarrow> string \<Rightarrow> ('b, 'p) watcher
     \<Rightarrow> ('b, 'p) watcher" where
  "on_error env creds params code w =
     (let errorCode = toUpperCase code
      in if errorCode \<in> set [''ECONNRESET'', ''EPIPE'']
         then fst (connect_and_open env creds params w)
         else w\<lparr> trace := trace w @ [EmitError (ConnectionError code)] \<rparr>)"

text \<open>The callback of \<^verbatim>\<open>setInterval\<close>: the forced reconnection.\<close>

definition force_reconnect ::
  "('s, 'b, 'p) collaborators \<Rightarrow> credentials \<Rightarrow> parameters \<Rightarrow> ('b, 'p) watcher
     \<Rightarrow> ('b, 'p) watcher" where
  "force_reconnect env creds params w =
     fst (connect_and_open env creds params (w\<lparr> trace := trace w @ [End] \<rparr>))"

text \<open>
  What can happen on the event loop while the watcher lives; each occurrence comes with
  the collaborators as they answer at that moment. The handlers of a connection exist
  once it is established; the timer exists once the interval is set.
\<close>

datatype ('s, 'b, 'p) occurrence =
    NewMail "('s, 'b, 'p) collaborators"
  | ConnectionFailure "('s, 'b, 'p) collaborators" string
  | ReconnectTimer "('s, 'b, 'p) collaborators"

definition handle ::
  "credentials \<Rightarrow> parameters \<Rightarrow> ('s, 'b, 'p) occurrence \<Rightarrow> ('b, 'p) watcher \<Rightarrow> ('b, 'p) watcher" where
  "handle creds params occ w =
     (case occ of
        NewMail env \<Rightarrow> onMail env params w
      | ConnectionFailure env code \<Rightarrow>
          (if connection w then on_error env creds params code w else w)
      | ReconnectTimer env \<Rightarrow>
          (if reconnectionInterval w then force_reconnect env creds params w else w))"

text \<open>
  \<^verbatim>\<open>trigger\<close>, from \<^verbatim>\<open>connection = await establishConnection()\<close> on.
  \<open>during_open\<close> is what happens on the event loop while \<^verbatim>\<open>openBox\<close> is awaited.
  Resolving \<^verbatim>\<open>returnedPromise\<close> runs the callbacks that wait for it.
\<close>

definition trigger ::
  "('s, 'b, 'p) collaborators \<Rightarrow> credentials \<Rightarrow> parameters \<Rightarrow> ('s, 'b, 'p) occurrence list
     \<Rightarrow> ('b, 'p) watcher \<Rightarrow> ('b, 'p) watcher \<times> (error + unit)" where
  "trigger env creds params during_open w =
     (case establishConnection env creds params w of
        (w1, Inl e) \<Rightarrow> (w1, Inl e)
      | (w1, Inr criteria) \<Rightarrow>
          (let w2 = w1\<lparr> connection := True, searchCriteria := criteria,
                        trace := trace w1 @ [OpenBox (mailbox params)] \<rparr>;
               w3 = fold (handle creds params) during_open w2
           in case openBox env (mailbox params) of
                Some e \<Rightarrow> (w3, Inl e)
              | None \<Rightarrow>
                  (let w4 = w3\<lparr> reconnectionInterval :=
                                   (forceReconnect (options params) \<noteq> None) \<rparr>
                   in (w4\<lparr> returnedPromise := True, waiting := [],
                            trace := trace w4 @ [Resolve] @ map EmitError (waiting w4) \<rparr>,
                       Inr ()))))"

text \<open>The watcher before \<^verbatim>\<open>trigger\<close> runs, with the static data loaded.\<close>

definition initial :: "nat option \<Rightarrow> ('b, 'p) watcher" where
  "initial lastUid =
     \<lparr> staticData = lastUid, connection = False, searchCriteria = [],
       returnedPromise = False, waiting = [], reconnectionInterval = False, trace = [] \<rparr>"

subsection \<open>The messages a watcher has observed\<close>

text \<open>
  The uids of the messages that the loop of a fetch cycle reaches, in order: all the
  search results when the loop runs to its end, and the results up to the message whose
  formatting throws otherwise.
\<close>

fun observe :: "('s message \<Rightarrow> error + 'e) \<Rightarrow> 's message list \<Rightarrow> nat option \<Rightarrow> nat list" where
  "observe fmt [] lastUid = []"
| "observe fmt (message # rest) lastUid =
     uid message #
     (if (case lastUid of None \<Rightarrow> False | Some l \<Rightarrow> uid message \<le> l)
      then observe fmt rest lastUid
      else
        (let lastUid' =
               (if (case lastUid of None \<Rightarrow> True | Some l \<Rightarrow> l < uid message)
                then Some (uid message) else lastUid)
         in case fmt message of
              Inl e \<Rightarrow> []
            | Inr newEmail \<Rightarrow> observe fmt rest lastUid'))"

definition observed_in_cycle ::
  "('s, 'b, 'p) collaborators \<Rightarrow> parameters \<Rightarrow> criterion list \<Rightarrow> nat option \<Rightarrow> nat list" where
  "observed_in_cycle env params criteria lastUid =
     (case search env criteria (fetchOptions (node_format params)) of
        Inl e \<Rightarrow> []
      | Inr results \<Rightarrow> observe (format_message env params) results lastUid)"

text \<open>The uids observed by the fetch cycles of a sequence of occurrences.\<close>

fun observed ::
  "credentials \<Rightarrow> parameters \<Rightarrow> ('s, 'b, 'p) occurrence list \<Rightarrow> ('b, 'p) watcher \<Rightarrow> nat list" where
  "observed creds params [] w = []"
| "observed creds params (occ # occs) w =
     (case occ of
        NewMail env \<Rightarrow>
          (if connection w
           then observed_in_cycle env params (pushed_criteria w) (staticData w) else [])
      | _ \<Rightarrow> [])
     @ observed creds params occs (handle creds params occ w)"

text \<open>The keys \<^verbatim>\<open>`${prefix}${j}`\<close> for the \<open>n\<close> indices from \<open>i\<close> on.\<close>

definition keys_from :: "string \<Rightarrow> nat \<Rightarrow> nat \<Rightarrow> string list" where
  "keys_from prefixName i n = map (\<lambda>j. prefixName @ decimal j) [i..<i + n]"

text \<open>The greatest element of a finite set of uids, if it has one.\<close>

definition hwm_of :: "nat set \<Rightarrow> nat option" where
  "hwm_of S = (if S = {} then None else Some (Max S))"

subsection \<open>Example inputs\<close>

text \<open>
  Collaborators that answer every call but one: the search returns the given messages,
  \<^verbatim>\<open>getParts\<close> flattens a structure that is there and throws on an absent one, and
  only the string \<^verbatim>\<open>[]\<close> parses as JSON. The messages carry a structure, as
  \<^verbatim>\<open>struct: true\<close> of the fetch options asks for.
\<close>

definition example_env :: "unit message list \<Rightarrow> (unit, string, unit) collaborators" where
  "example_env results =
     \<lparr> getParts = (\<lambda>st. case st of None \<Rightarrow> Inl TypeError | Some _ \<Rightarrow> Inr []),
       getPartData = (\<lambda>_ _. Inr ''data''),
       prepareBinaryData = (\<lambda>d _ _. Inr d),
       simpleParser = (\<lambda>_. Inr \<lparr> headerLines = [], attachments = Some [], other_fields = () \<rparr>),
       search = (\<lambda>_ _. Inr results),
       addFlags = (\<lambda>_ _. None),
       imapConnect = (\<lambda>_. None),
       openBox = (\<lambda>_. None),
       json_parse = (\<lambda>s. if s = ''[]'' then Some [] else None),
       first_rejection = (\<lambda>_. 0) \<rparr>"

definition example_params :: "format \<Rightarrow> post_process_action \<Rightarrow> parameters" where
  "example_params fm act =
     \<lparr> mailbox = ''INBOX'', postProcessAction = act, node_format = fm,
       downloadAttachments = True, dataPropertyAttachmentsPrefixName = ''attachment_'',
       options = \<lparr> customEmailConfig = None, allowUnauthorizedCerts = False,
                   forceReconnect = None \<rparr> \<rparr>"

definition text_message :: "nat \<Rightarrow> unit message" where
  "text_message u = \<lparr> uid = u, struct = Some (),
                      parts = [\<lparr> which = ''TEXT'', body = Buffer ''hello'' \<rparr>] \<rparr>"

definition empty_message :: "nat \<Rightarrow> unit message" where
  "empty_message u = \<lparr> uid = u, struct = Some (), parts = [] \<rparr>"

definition example_credentials :: credentials where
  "example_credentials =
     \<lparr> user = ''me'', password = ''secret'', host = '' imap.example.org '', port = 993,
       secure = True \<rparr>"

definition example_config :: imap_config where
  "example_config =
     \<lparr> imap_user = ''me'', imap_password = ''secret'', imap_host = ''imap.example.org'',
       imap_port = 993, imap_tls = True, authTimeout = 20000,
       tlsOptions = Some \<lparr> rejectUnauthorized = None,
                            servername = Some ''imap.example.org'' \<rparr> \<rparr>"

text \<open>
  A message with a section \<^verbatim>\<open>HEADER\<close> only, and collaborators for a message with an
  HTML part and one attachment part.
\<close>

definition header_message :: "nat \<Rightarrow> unit message" where
  "header_message u =
     \<lparr> uid = u, struct = Some (),
       parts = [\<lparr> which = ''HEADER'',
                  body = HeaderRecord [(''subject'', [''hi'']), (''x-mailer'', [''m'', ''n''])] \<rparr>] \<rparr>"

definition attachment_part :: mime_part where
  "attachment_part =
     \<lparr> ptype = ''application'', subtype = ''pdf'',
       disposition = Some \<lparr> dtype = ''attachment'',
                            disp_params = Some \<lparr> filename = Some ''a.pdf'' \<rparr> \<rparr> \<rparr>"

definition html_part :: mime_part where
  "html_part = \<lparr> ptype = ''text'', subtype = ''html'', disposition = None \<rparr>"

definition attachment_env :: "(unit, string, unit) collaborators" where
  "attachment_env =
     \<lparr> getParts = (\<lambda>st. case st of None \<Rightarrow> Inl TypeError
                             | Some _ \<Rightarrow> Inr [html_part, attachment_part]),
       getPartData = (\<lambda>_ part. Inr (subtype part)),
       prepareBinaryData = (\<lambda>d _ _. Inr d),
       simpleParser = (\<lambda>_. Inr \<lparr> headerLines = [(''subject'', ''Subject: hi'')],
                                attachments = Some [\<lparr> content = ''one'', att_filename = None,
                                                      contentType = ''text/plain'' \<rparr>,
                                                    \<lparr> content = ''two'', att_filename = None,
                                                      contentType = ''text/plain'' \<rparr>],
                                other_fields = () \<rparr>),
       search = (\<lambda>_ _. Inr []),
       addFlags = (\<lambda>_ _. None),
       imapConnect = (\<lambda>_. None),
       openBox = (\<lambda>_. None),
       json_parse = (\<lambda>s. if s = ''[]'' then Some [] else None),
       first_rejection = (\<lambda>_. 0) \<rparr>"

lemmas format_defs = format_simple_def getText_def getAttachment_def fetch_attachment_def
  promise_all_def List.map_filter_simps toUpperCase_def
  upper_char_def header_fields_def set_property_def topLevelProperties_def parseRawEmail_def
  header_message_def attachment_part_def html_part_def attachment_env_def
  decimal.simps digit_char_def

lemmas example_defs = example_env_def example_params_def text_message_def empty_message_def
  getNewEmails_def format_message_def format_raw_def fetchOptions_def parse_error_def seen_flag_def

lemmas watcher_defs = trigger_def establishConnection_def initial_def handle_def onMail_def
  on_error_def pushed_criteria_def imapConfig_def trim_def is_space_def toUpperCase_def
  upper_char_def decimal.simps digit_char_def example_credentials_def example_config_def

section \<open>The loop over the search results\<close>

lemma Max_insert_absorb:
  "finite S \<Longrightarrow> (u::nat) \<le> l \<Longrightarrow> Max (insert l (insert u S)) = Max (insert l S)"
  by (cases "S = {}") (auto simp: max_def)

lemma for_each_mono:
  "for_each_message fmt ms (Some l) acc = (h, r) \<Longrightarrow> \<exists>l'. h = Some l' \<and> l \<le> l'"
proof (induction ms arbitrary: l acc)
  case Nil then show ?case by auto
next
  case (Cons m ms)
  show ?case
  proof (cases "uid m \<le> l")
    case True
    with Cons show ?thesis by simp
  next
    case False
    with Cons.prems show ?thesis
      by (cases "fmt m") (auto dest!: Cons.IH)
  qed
qed

lemma for_each_kept:
  "for_each_message fmt ms h acc = (h', Inr evs) \<Longrightarrow>
     \<exists>kept new. evs = acc @ new \<and> subseq kept ms
        \<and> (\<forall>m \<in> set kept. case h of None \<Rightarrow> True | Some l \<Rightarrow> l < uid m)
        \<and> map fmt kept = map Inr new"
proof (induction ms arbitrary: h acc)
  case Nil then show ?case by auto
next
  case (Cons m ms)
  show ?case
  proof (cases "case h of None \<Rightarrow> False | Some l \<Rightarrow> uid m \<le> l")
    case True
    with Cons.prems have "for_each_message fmt ms h acc = (h', Inr evs)" by simp
    from Cons.IH[OF this] obtain kept new where
      k: "evs = acc @ new" "subseq kept ms" "\<forall>m \<in> set kept. case h of None \<Rightarrow> True | Some l \<Rightarrow> l < uid m"
         "map fmt kept = map Inr new" by blast
    then show ?thesis by (intro exI[of _ kept] exI[of _ new]) auto
  next
    case False
    then obtain ev where ev: "fmt m = Inr ev" and
      rec: "for_each_message fmt ms (Some (uid m)) (acc @ [ev]) = (h', Inr evs)"
      using Cons.prems by (cases "fmt m") (auto split: option.splits if_splits)
    from Cons.IH[OF rec] obtain kept new where
      k: "evs = (acc @ [ev]) @ new" "subseq kept ms" "\<forall>x \<in> set kept. uid m < uid x"
         "map fmt kept = map Inr new" by auto
    show ?thesis
      using k ev False
      by (intro exI[of _ "m # kept"] exI[of _ "ev # new"]) (auto split: option.splits)
  qed
qed

lemma for_each_fail:
  "for_each_message fmt ms h acc = (h', Inl e) \<Longrightarrow>
     \<exists>m \<in> set ms. fmt m = Inl e \<and> h' = Some (uid m)
        \<and> (case h of None \<Rightarrow> True | Some l \<Rightarrow> l < uid m)"
proof (induction ms arbitrary: h acc)
  case Nil then show ?case by simp
next
  case (Cons m ms)
  show ?case
  proof (cases "case h of None \<Rightarrow> False | Some l \<Rightarrow> uid m \<le> l")
    case True
    with Cons.prems have "for_each_message fmt ms h acc = (h', Inl e)" by simp
    from Cons.IH[OF this] show ?thesis by auto
  next
    case False
    show ?thesis
    proof (cases "fmt m")
      case (Inl e')
      with False Cons.prems show ?thesis
        by (auto split: option.splits if_splits)
    next
      case (Inr ev)
      with False Cons.prems
      have "for_each_message fmt ms (Some (uid m)) (acc @ [ev]) = (h', Inl e)"
        by (auto split: option.splits if_splits)
      from Cons.IH[OF this] obtain x where
        "x \<in> set ms" "fmt x = Inl e" "h' = Some (uid x)" "uid m < uid x" by auto
      with False show ?thesis
        by (intro bexI[of _ x]) (auto split: option.splits)
    qed
  qed
qed

lemma hwm_of_absorb:
  "finite A \<Longrightarrow> finite B \<Longrightarrow> hwm_of (set_option (hwm_of A) \<union> B) = hwm_of (A \<union> B)"
  by (cases "A = {}"; cases "B = {}") (auto simp: hwm_of_def Max_Un)

lemma hwm_of_insert_seen:
  "finite S \<Longrightarrow> u \<le> l \<Longrightarrow> hwm_of (insert l (insert u S)) = hwm_of (insert l S)"
  using Max_insert_absorb[of S u l] by (simp add: hwm_of_def del: Max_insert)

lemma for_each_observe:
  "fst (for_each_message fmt ms h acc) = hwm_of (set_option h \<union> set (observe fmt ms h))"
proof (induction ms arbitrary: h acc)
  case Nil then show ?case by (cases h) (auto simp: hwm_of_def)
next
  case (Cons m ms)
  show ?case
  proof (cases "case h of None \<Rightarrow> False | Some l \<Rightarrow> uid m \<le> l")
    case True
    then obtain l where l: "h = Some l" "uid m \<le> l" by (cases h) auto
    have "fst (for_each_message fmt (m # ms) h acc) = hwm_of (insert l (set (observe fmt ms h)))"
      using l Cons.IH[of h acc] by simp
    also have "\<dots> = hwm_of (insert l (insert (uid m) (set (observe fmt ms h))))"
      using l(2) by (simp add: hwm_of_insert_seen)
    finally show ?thesis using l by (simp add: insert_commute)
  next
    case False
    then have above: "\<And>l. h = Some l \<Longrightarrow> l \<le> uid m" by auto
    have absorb: "hwm_of (set_option h \<union> insert (uid m) S) = hwm_of (insert (uid m) S)"
      if "finite S" for S
    proof (cases h)
      case None then show ?thesis by simp
    next
      case (Some l)
      with above have "l \<le> uid m" by simp
      from hwm_of_insert_seen[OF that this] Some show ?thesis by (simp add: insert_commute)
    qed
    show ?thesis
    proof (cases "fmt m")
      case (Inl e)
      with False have "fst (for_each_message fmt (m # ms) h acc) = Some (uid m)"
        by (auto split: option.splits)
      moreover have "observe fmt (m # ms) h = [uid m]"
        using False Inl by (auto split: option.splits)
      ultimately show ?thesis using absorb[of "{}"] by (simp add: hwm_of_def)
    next
      case (Inr ev)
      with False have "fst (for_each_message fmt (m # ms) h acc)
          = fst (for_each_message fmt ms (Some (uid m)) (acc @ [ev]))"
        by (auto split: option.splits)
      moreover have "observe fmt (m # ms) h = uid m # observe fmt ms (Some (uid m))"
        using False Inr by (auto split: option.splits)
      ultimately show ?thesis
        using Cons.IH[of "Some (uid m)" "acc @ [ev]"]
              absorb[of "insert (uid m) (set (observe fmt ms (Some (uid m))))"]
        by simp
    qed
  qed
qed

lemma observe_completed:
  "snd (for_each_message fmt ms h acc) = Inr evs \<Longrightarrow> observe fmt ms h = map uid ms"
proof (induction ms arbitrary: h acc)
  case Nil then show ?case by simp
next
  case (Cons m ms)
  show ?case
  proof (cases "case h of None \<Rightarrow> False | Some l \<Rightarrow> uid m \<le> l")
    case True
    with Cons show ?thesis by simp
  next
    case False
    with Cons.prems show ?thesis
      by (cases "fmt m") (auto simp: Let_def dest: Cons.IH split: option.splits)
  qed
qed

lemma cycle_hwm:
  "lastMessageUid (getNewEmails env params criteria h)
     = hwm_of (set_option h \<union> set (observed_in_cycle env params criteria h))"
proof (cases "search env criteria (fetchOptions (node_format params))")
  case (Inl e)
  then show ?thesis by (cases h) (auto simp: getNewEmails_def observed_in_cycle_def hwm_of_def)
next
  case (Inr results)
  have "lastMessageUid (getNewEmails env params criteria h)
      = fst (for_each_message (format_message env params) results h [])"
    using Inr
    by (cases "for_each_message (format_message env params) results h []")
       (auto simp: getNewEmails_def Let_def split: sum.splits)
  then show ?thesis using Inr by (simp add: for_each_observe observed_in_cycle_def)
qed

lemma staticData_onMail:
  "staticData (onMail env params w) =
     (if connection w
      then lastMessageUid (getNewEmails env params (pushed_criteria w) (staticData w))
      else staticData w)"
  by (auto simp: onMail_def Let_def split: sum.splits)

lemma staticData_connect_and_open:
  "staticData (fst (connect_and_open env creds params w)) = staticData w"
  by (auto simp: connect_and_open_def establishConnection_def Let_def
           split: sum.splits option.splits prod.splits)

lemma staticData_handle:
  "staticData (handle creds params occ w) =
     hwm_of (set_option (staticData w) \<union> set (observed creds params [occ] w))"
proof (cases occ)
  case (NewMail env)
  then show ?thesis
    by (cases "staticData w") (auto simp: handle_def staticData_onMail cycle_hwm hwm_of_def)
next
  case (ConnectionFailure env code)
  then show ?thesis
    by (cases "staticData w")
       (auto simp: handle_def on_error_def Let_def staticData_connect_and_open hwm_of_def)
next
  case (ReconnectTimer env)
  then show ?thesis
    by (cases "staticData w")
       (auto simp: handle_def force_reconnect_def staticData_connect_and_open hwm_of_def)
qed

lemma staticData_fold:
  "staticData (fold (handle creds params) occs w) =
     hwm_of (set_option (staticData w) \<union> set (observed creds params occs w))"
proof (induction occs arbitrary: w)
  case Nil then show ?case by (cases "staticData w") (auto simp: hwm_of_def)
next
  case (Cons occ occs)
  have "staticData (fold (handle creds params) (occ # occs) w)
      = hwm_of (set_option (staticData (handle creds params occ w))
                \<union> set (observed creds params occs (handle creds params occ w)))"
    using Cons.IH by simp
  also have "\<dots> = hwm_of ((set_option (staticData w) \<union> set (observed creds params [occ] w))
                \<union> set (observed creds params occs (handle creds params occ w)))"
    unfolding staticData_handle by (rule hwm_of_absorb) (simp_all del: observed.simps)
  finally show ?case by (simp add: Un_assoc)
qed

lemma observed_completed_cycle:
  assumes "search env criteria (fetchOptions (node_format params)) = Inr results"
    and "returned (getNewEmails env params criteria lastUid) = Inr newEmails"
  shows "observed_in_cycle env params criteria lastUid = map uid results"
proof -
  from assms
  have "\<exists>evs. snd (for_each_message (format_message env params) results lastUid []) = Inr evs"
    by (cases "for_each_message (format_message env params) results lastUid []")
       (auto simp: getNewEmails_def Let_def split: sum.splits if_splits)
  then show ?thesis
    using assms(1) by (auto simp: observed_in_cycle_def dest: observe_completed)
qed

lemma for_each_append:
  "for_each_message fmt (xs @ ys) h acc =
     (case for_each_message fmt xs h acc of
        (h1, Inl e) \<Rightarrow> (h1, Inl e)
      | (h1, Inr evs) \<Rightarrow> for_each_message fmt ys h1 evs)"
  by (induction xs arbitrary: h acc) (auto simp: Let_def split: sum.splits)

section \<open>Attachment keys\<close>

lemma digit_char_inj: "a < 10 \<Longrightarrow> b < 10 \<Longrightarrow> digit_char a = digit_char b \<Longrightarrow> a = b"
proof -
  assume a: "a < 10" and b: "b < 10" and e: "digit_char a = digit_char b"
  have d: "distinct ''0123456789''" by simp
  from a b have "a < length ''0123456789''" "b < length ''0123456789''" by simp_all
  with d e show "a = b" unfolding digit_char_def by (simp only: nth_eq_iff_index_eq)
qed

lemma decimal_nonempty: "decimal n \<noteq> []"
  by (subst decimal.simps) simp

lemma decimal_inj: "decimal n = decimal m \<Longrightarrow> n = m"
proof (induction n arbitrary: m rule: decimal.induct)
  case (1 n)
  show ?case
  proof (cases "n < 10")
    case True
    show ?thesis
    proof (cases "m < 10")
      case mt: True
      from "1.prems" True mt have "digit_char n = digit_char m"
        by (simp add: decimal.simps[of n] decimal.simps[of m])
      from digit_char_inj[OF True mt this] show ?thesis .
    next
      case False
      with "1.prems" True show ?thesis
        using decimal_nonempty[of "m div 10"]
        by (simp add: decimal.simps[of n] decimal.simps[of m])
    qed
  next
    case False
    show ?thesis
    proof (cases "m < 10")
      case True
      with "1.prems" False show ?thesis
        using decimal_nonempty[of "n div 10"]
        by (simp add: decimal.simps[of n] decimal.simps[of m])
    next
      case mf: False
      from "1.prems" False mf have
        e1: "decimal (n div 10) = decimal (m div 10)" and
        e2: "digit_char (n mod 10) = digit_char (m mod 10)"
        by (simp_all add: decimal.simps[of n] decimal.simps[of m])
      from "1.IH"[OF False e1] have "n div 10 = m div 10" .
      moreover have "n mod 10 = m mod 10"
        by (rule digit_char_inj[OF _ _ e2]) simp_all
      ultimately show ?thesis by (metis div_mult_mod_eq)
    qed
  qed
qed

lemma update_fresh: "k \<notin> fst ` set al \<Longrightarrow> AList.update k v al = al @ [(k, v)]"
  by (induction al) auto

lemma keys_from_Suc: "keys_from prefixName i (Suc n) = (prefixName @ decimal i) # keys_from prefixName (Suc i) n"
  unfolding keys_from_def by (subst upt_rec) simp

lemma store_binaries_zip:
  "(\<forall>k \<in> fst ` set acc. \<forall>j \<ge> i. k \<noteq> prefixName @ decimal j) \<Longrightarrow>
     store_binaries prefixName bs i acc = acc @ zip (keys_from prefixName i (length bs)) bs"
proof (induction bs arbitrary: i acc)
  case Nil then show ?case by simp
next
  case (Cons b bs)
  have fresh: "prefixName @ decimal i \<notin> fst ` set acc" using Cons.prems le_refl by blast
  have "\<forall>k \<in> fst ` set (acc @ [(prefixName @ decimal i, b)]). \<forall>j \<ge> Suc i. k \<noteq> prefixName @ decimal j"
    using Cons.prems by (auto dest: decimal_inj)
  from Cons.IH[OF this] fresh show ?case
    by (simp add: update_fresh keys_from_Suc)
qed

lemma store_attachments_zip:
  "(\<forall>k \<in> fst ` set acc. \<forall>j \<ge> i. k \<noteq> prefixName @ decimal j) \<Longrightarrow>
   store_attachments env prefixName atts i acc = Inr res \<Longrightarrow>
     \<exists>handles. map (\<lambda>a. prepareBinaryData env (content a) (att_filename a) (Some (contentType a))) atts
                 = map Inr handles
        \<and> res = acc @ zip (keys_from prefixName i (length handles)) handles"
proof (induction atts arbitrary: i acc)
  case Nil then show ?case by simp
next
  case (Cons a atts)
  from Cons.prems(2) obtain b where
    b: "prepareBinaryData env (content a) (att_filename a) (Some (contentType a)) = Inr b"
    and rec: "store_attachments env prefixName atts (Suc i)
                (AList.update (prefixName @ decimal i) b acc) = Inr res"
    by (auto split: sum.splits)
  have fresh: "prefixName @ decimal i \<notin> fst ` set acc" using Cons.prems(1) le_refl by blast
  have "\<forall>k \<in> fst ` set (acc @ [(prefixName @ decimal i, b)]). \<forall>j \<ge> Suc i. k \<noteq> prefixName @ decimal j"
    using Cons.prems(1) by (auto dest: decimal_inj)
  from Cons.IH[OF this] rec fresh obtain handles where
    h: "map (\<lambda>a. prepareBinaryData env (content a) (att_filename a) (Some (contentType a))) atts
          = map Inr handles"
       "res = (acc @ [(prefixName @ decimal i, b)]) @ zip (keys_from prefixName (Suc i) (length handles)) handles"
    by (auto simp: update_fresh)
  show ?case
    using h b by (intro exI[of _ "b # handles"]) (simp add: keys_from_Suc)
qed

section \<open>Deduplication\<close>

text \<open>
  C1. In every output format, each event that a fetch cycle returns is the formatting of a
  message of the search results whose uid is greater than the value that
  \<^verbatim>\<open>staticData.lastMessageUid\<close> had when the cycle started: the results with a uid at
  or below it are skipped by the loop, although the search returned them.
\<close>

theorem no_event_at_or_below_hwm:
  assumes "search env criteria (fetchOptions (node_format params)) = Inr results"
    and "returned (getNewEmails env params criteria (Some l)) = Inr newEmails"
  shows "\<exists>kept. subseq kept results \<and> (\<forall>m \<in> set kept. l < uid m)
            \<and> map (format_message env params) kept = map Inr newEmails"
proof -
  obtain h' r where fe: "for_each_message (format_message env params) results (Some l) [] = (h', r)"
    by (cases "for_each_message (format_message env params) results (Some l) []")
  with assms have "r = Inr newEmails"
    by (auto simp: getNewEmails_def Let_def split: sum.splits if_splits option.splits)
  with fe for_each_kept[of "format_message env params" results "Some l" "[]" h' newEmails]
  show ?thesis by auto
qed

theorem no_event_at_or_below_hwm_witness:
  "\<exists>kept. subseq kept [text_message 5, text_message 7, text_message 9]
     \<and> (\<forall>m \<in> set kept. 7 < uid m)
     \<and> map (format_message (example_env [text_message 5, text_message 7, text_message 9])
              (example_params Raw Read)) kept
        = map Inr [\<lparr> json = RawJson (Buffer ''hello''), binary = None \<rparr>]"
  by (rule no_event_at_or_below_hwm[of _ "[]"]) (simp_all add: example_defs)

text \<open>
  C3. Over every sequence of occurrences in the life of a watcher (new-mail notifications,
  connection errors, forced reconnections), \<^verbatim>\<open>staticData.lastMessageUid\<close> ends as the
  greatest uid among its initial value and the uids the fetch cycles have observed, and it
  is never below its initial value. A cycle that completes has observed every search
  result, so after it the value is the maximum over the whole batch, whatever the order
  of the results.
\<close>

theorem hwm_monotone_and_max:
  "(let S = set_option (staticData w) \<union> set (observed creds params occs w)
    in staticData (fold (handle creds params) occs w) = (if S = {} then None else Some (Max S)))
   \<and> (\<forall>l. staticData w = Some l \<longrightarrow>
         (\<exists>l'. staticData (fold (handle creds params) occs w) = Some l' \<and> l \<le> l'))
   \<and> (\<forall>env criteria lastUid results newEmails.
         search env criteria (fetchOptions (node_format params)) = Inr results
         \<and> returned (getNewEmails env params criteria lastUid) = Inr newEmails
         \<longrightarrow> observed_in_cycle env params criteria lastUid = map uid results)"
proof -
  have a: "let S = set_option (staticData w) \<union> set (observed creds params occs w)
    in staticData (fold (handle creds params) occs w) = (if S = {} then None else Some (Max S))"
    by (simp add: staticData_fold hwm_of_def Let_def)
  have b: "\<forall>l. staticData w = Some l \<longrightarrow>
         (\<exists>l'. staticData (fold (handle creds params) occs w) = Some l' \<and> l \<le> l')"
    by (simp add: staticData_fold hwm_of_def)
  from a b show ?thesis
    by (simp only: simp_thms) (blast intro: observed_completed_cycle)
qed

theorem hwm_monotone_and_max_witness:
  "staticData (fold (handle example_credentials (example_params Raw Nothing))
      [NewMail (example_env [text_message 9, text_message 5, text_message 7]),
       NewMail (example_env [text_message 8])]
      ((initial (Some 6))\<lparr> connection := True, searchCriteria := [Flag ''UNSEEN''] \<rparr>))
   = Some 9
   \<and> observed_in_cycle (example_env [text_message 9, text_message 5, text_message 7])
       (example_params Raw Nothing) [] (Some 6) = [9, 5, 7]"
proof -
  let ?w = "(initial (Some 6) :: (string, unit) watcher)
              \<lparr> connection := True, searchCriteria := [Flag ''UNSEEN''] \<rparr>"
  let ?env = "example_env [text_message 9, text_message 5, text_message 7]"
  let ?occs = "[NewMail ?env, NewMail (example_env [text_message 8])]"
  let ?params = "example_params Raw Nothing"
  note t = hwm_monotone_and_max[of ?w example_credentials ?params ?occs]
  from t[THEN conjunct1]
  have a: "staticData (fold (handle example_credentials ?params) ?occs ?w) = Some 9"
    by (simp add: initial_def pushed_criteria_def observed_in_cycle_def handle_def onMail_def
        Let_def decimal.simps digit_char_def example_defs)
  have c: "search ?env [] (fetchOptions (node_format ?params))
        = Inr [text_message 9, text_message 5, text_message 7]
      \<and> returned (getNewEmails ?env ?params [] (Some 6))
        = Inr [\<lparr> json = RawJson (Buffer ''hello''), binary = None \<rparr>]"
    by (simp add: example_defs)
  from t[THEN conjunct2, THEN conjunct2, rule_format, OF c]
  have "observed_in_cycle ?env ?params [] (Some 6) = [9, 5, 7]"
    by (simp add: text_message_def)
  with a show ?thesis by simp
qed

section \<open>Failure and flagging\<close>

text \<open>
  C2, as the code has it. When the loop of a fetch cycle reaches a message that it does
  not skip and whose formatting throws (a missing section among the causes), the cycle
  throws that error, returns no event and calls \<^verbatim>\<open>addFlags\<close> for no message.
  \<^verbatim>\<open>staticData.lastMessageUid\<close> is not rolled back: it is left at the uid of that
  message, which is above the value at the start of the cycle.
\<close>

theorem formatting_failure_aborts_cycle:
  assumes "search env criteria (fetchOptions (node_format params)) = Inr (before @ message # rest)"
    and "for_each_message (format_message env params) before lastUid [] = (h1, Inr evs)"
    and "case h1 of None \<Rightarrow> True | Some l \<Rightarrow> l < uid message"
    and "format_message env params message = Inl e"
  shows "returned (getNewEmails env params criteria lastUid) = Inl e
    \<and> addFlags_calls (getNewEmails env params criteria lastUid) = []
    \<and> lastMessageUid (getNewEmails env params criteria lastUid) = Some (uid message)
    \<and> (case lastUid of None \<Rightarrow> True | Some l \<Rightarrow> l < uid message)"
proof -
  from assms(3) have "\<not> (case h1 of None \<Rightarrow> False | Some l \<Rightarrow> uid message \<le> l)"
    by (auto split: option.splits)
  with assms(4)
  have "for_each_message (format_message env params) (message # rest) h1 evs
      = (Some (uid message), Inl e)"
    by (auto split: option.splits)
  with assms(2)
  have loop: "for_each_message (format_message env params) (before @ message # rest) lastUid []
      = (Some (uid message), Inl e)"
    by (simp add: for_each_append)
  have above: "case lastUid of None \<Rightarrow> True | Some l \<Rightarrow> l < uid message"
  proof (cases lastUid)
    case None then show ?thesis by simp
  next
    case (Some l)
    with assms(2) for_each_mono[of "format_message env params" before l "[]" h1 "Inr evs"]
    obtain l' where "h1 = Some l'" "l \<le> l'" by auto
    with assms(3) Some show ?thesis by simp
  qed
  from loop above assms(1) show ?thesis by (simp add: getNewEmails_def)
qed

theorem formatting_failure_aborts_cycle_witness:
  "returned (getNewEmails (example_env [text_message 5, empty_message 7, text_message 9])
      (example_params Raw Read) [] (Some 3)) = Inl parse_error
   \<and> addFlags_calls (getNewEmails (example_env [text_message 5, empty_message 7, text_message 9])
      (example_params Raw Read) [] (Some 3)) = []
   \<and> lastMessageUid (getNewEmails (example_env [text_message 5, empty_message 7, text_message 9])
      (example_params Raw Read) [] (Some 3)) = Some (uid (empty_message 7 :: unit message))
   \<and> (case Some 3 of None \<Rightarrow> True | Some l \<Rightarrow> l < uid (empty_message 7 :: unit message))"
  by (rule formatting_failure_aborts_cycle[where before = "[text_message 5]"
        and rest = "[text_message 9]" and ?h1.0 = "Some 5"
        and evs = "[\<lparr> json = RawJson (Buffer ''hello''), binary = None \<rparr>]"])
     (simp_all add: example_defs)

theorem parse_error_advances_hwm_counterexample:
  "returned (getNewEmails (example_env [text_message 5, empty_message 7])
               (example_params Raw Read) [] (Some 3)) = Inl parse_error
   \<and> lastMessageUid (getNewEmails (example_env [text_message 5, empty_message 7])
               (example_params Raw Read) [] (Some 3)) = Some 7"
  by (simp add: example_defs)

text \<open>
  C4, as the code has it. With \<^verbatim>\<open>postProcessAction = 'read'\<close>, \<^verbatim>\<open>addFlags\<close> is
  called at most once in a cycle, after the loop over the whole batch has finished without
  an exception, and with the uids of all the messages the search returned, skipped ones
  included; with no search result, after an exception, or with the action
  \<^verbatim>\<open>'nothing'\<close>, it is not called.
\<close>

theorem flags_all_results_after_batch:
  assumes "search env criteria (fetchOptions (node_format params)) = Inr results"
  shows "addFlags_calls (getNewEmails env params criteria lastUid) =
     (if postProcessAction params = Read \<and> results \<noteq> []
         \<and> (\<exists>newEmails. snd (for_each_message (format_message env params) results lastUid [])
               = Inr newEmails)
      then [(map uid results, seen_flag)] else [])"
  using assms
  by (cases "for_each_message (format_message env params) results lastUid []")
     (auto simp: getNewEmails_def Let_def split: sum.splits)

theorem flags_all_results_after_batch_witness:
  "addFlags_calls (getNewEmails (example_env [text_message 5, text_message 9])
      (example_params Raw Read) [] (Some 7)) = [([5, 9], seen_flag)]"
  using flags_all_results_after_batch[of "example_env [text_message 5, text_message 9]" "[]"
      "example_params Raw Read" "[text_message 5, text_message 9]" "Some 7"]
  by (simp add: example_defs)


theorem skipped_message_flagged_counterexample:
  "returned (getNewEmails (example_env [text_message 7]) (example_params Raw Read) [] (Some 7))
     = Inr []
   \<and> addFlags_calls (getNewEmails (example_env [text_message 7]) (example_params Raw Read) []
       (Some 7)) = [([7], seen_flag)]"
  by (simp add: example_defs)

section \<open>Search criteria\<close>

text \<open>
  C5. With \<^verbatim>\<open>lastMessageUid = 5\<close> and the default criteria, the first notification
  searches with \<^verbatim>\<open>['UNSEEN', ['UID', '5:*']]\<close>, and the second one, on the same
  connection, with \<^verbatim>\<open>['UNSEEN', ['UID', '5:*'], ['UID', '5:*']]\<close>: every notification
  pushes one more criterion onto the array that \<^verbatim>\<open>onMail\<close> has captured.
\<close>

theorem criteria_accumulate:
  "trace (fold (handle example_credentials (example_params Raw Read))
            [NewMail (example_env []), NewMail (example_env [])]
            (fst (trigger (example_env []) example_credentials (example_params Raw Read) []
                   (initial (Some 5)))))
   = [Connect example_config, OpenBox ''INBOX'', Resolve,
      Search [Flag ''UNSEEN'', Pair ''UID'' ''5:*'']
        \<lparr> bodies = [''TEXT'', ''HEADER''], markSeen = False, want_struct = True \<rparr>,
      Search [Flag ''UNSEEN'', Pair ''UID'' ''5:*'', Pair ''UID'' ''5:*'']
        \<lparr> bodies = [''TEXT'', ''HEADER''], markSeen = False, want_struct = True \<rparr>]"
  by (simp add: watcher_defs example_defs Let_def)

text \<open>
  In general: a notification handled while \<^verbatim>\<open>lastMessageUid\<close> is defined leaves the
  captured array one criterion longer than it found it.
\<close>

lemma onMail_pushes:
  "connection w \<Longrightarrow> staticData w = Some l \<Longrightarrow>
     searchCriteria (onMail env params w) = searchCriteria w @ [Pair ''UID'' (decimal l @ '':*'')]"
  by (simp add: onMail_def pushed_criteria_def Let_def split: sum.splits)

section \<open>Errors and readiness\<close>

text \<open>
  C6. A connection error other than a reset, arriving while \<^verbatim>\<open>trigger\<close> awaits
  \<^verbatim>\<open>openBox\<close>, is emitted at once: \<^verbatim>\<open>emitError\<close> comes before
  \<^verbatim>\<open>returnedPromise.resolve()\<close>.
\<close>

theorem connection_error_before_ready:
  "trace (fst (trigger (example_env []) example_credentials (example_params Raw Read)
                 [ConnectionFailure (example_env []) ''ETIMEDOUT''] (initial None)))
   = [Connect example_config, OpenBox ''INBOX'', EmitError (ConnectionError ''ETIMEDOUT''),
      Resolve]"
  by (simp add: watcher_defs example_defs Let_def)

text \<open>
  The error of a fetch cycle, in the same situation, waits: it is emitted after
  \<^verbatim>\<open>returnedPromise.resolve()\<close>.
\<close>

lemma fetch_error_waits_for_ready:
  "trace (fst (trigger (example_env []) example_credentials (example_params Raw Read)
                 [NewMail (example_env [empty_message 7])] (initial None)))
   = [Connect example_config, OpenBox ''INBOX'',
      Search [Flag ''UNSEEN'']
        \<lparr> bodies = [''TEXT'', ''HEADER''], markSeen = False, want_struct = True \<rparr>,
      Resolve, EmitError parse_error]"
  by (simp add: watcher_defs example_defs Let_def)

text \<open>
  C7. When \<^verbatim>\<open>customEmailConfig\<close> is set to a string that does not parse as JSON,
  \<^verbatim>\<open>trigger\<close> fails with the error \<^verbatim>\<open>Custom email config is not valid JSON.\<close>
  and leaves the watcher as it was: \<^verbatim>\<open>imapConnect\<close> has not been called.
\<close>

theorem invalid_custom_config_fails_before_connect:
  assumes "customEmailConfig (options params) = Some s" and "json_parse env s = None"
  shows "trigger env creds params during_open w = (w, Inl config_error)
    \<and> (\<forall>config. Connect config \<notin> set (trace (fst (trigger env creds params during_open
          (initial lastUid)))))"
  using assms by (simp add: trigger_def establishConnection_def initial_def)

theorem invalid_custom_config_fails_before_connect_witness:
  "trigger (example_env []) example_credentials
     ((example_params Simple Read)\<lparr> options :=
        \<lparr> customEmailConfig = Some ''not valid json'', allowUnauthorizedCerts = False,
          forceReconnect = None \<rparr> \<rparr>) [] (initial None)
   = (initial None, Inl (NodeOperationError ''Custom email config is not valid JSON.''))"
  using invalid_custom_config_fails_before_connect[of
      "(example_params Simple Read)\<lparr> options :=
        \<lparr> customEmailConfig = Some ''not valid json'', allowUnauthorizedCerts = False,
          forceReconnect = None \<rparr> \<rparr>" "''not valid json''" "example_env []"
      example_credentials "[]" "initial None" None]
  by (simp add: example_defs config_error_def)

section \<open>Formatting\<close>

text \<open>
  C8, as the code has it. In the formats \<^verbatim>\<open>raw\<close> and \<^verbatim>\<open>resolved\<close>, a message that
  the loop reaches and does not skip, and that has no section \<^verbatim>\<open>TEXT\<close> (raw) or
  \<^verbatim>\<open>''\<close> (resolved), makes the fetch cycle throw \<^verbatim>\<open>Email part could not be parsed.\<close>.
\<close>

theorem missing_section_is_parse_error:
  assumes "search env criteria (fetchOptions (node_format params)) = Inr (before @ message # rest)"
    and "for_each_message (format_message env params) before lastUid [] = (h1, Inr evs)"
    and "case h1 of None \<Rightarrow> True | Some l \<Rightarrow> l < uid message"
    and "node_format params = Raw \<and> find (\<lambda>part. which part = ''TEXT'') (parts message) = None
       \<or> node_format params = Resolved \<and> find (\<lambda>part. which part = []) (parts message) = None"
  shows "returned (getNewEmails env params criteria lastUid) = Inl parse_error"
proof -
  from assms(4) have "format_message env params message = Inl parse_error"
    by (auto simp: format_message_def format_raw_def format_resolved_def)
  moreover from assms(3) have "\<not> (case h1 of None \<Rightarrow> False | Some l \<Rightarrow> uid message \<le> l)"
    by (auto split: option.splits)
  ultimately
  have "for_each_message (format_message env params) (message # rest) h1 evs
      = (Some (uid message), Inl parse_error)"
    by (auto split: option.splits)
  with assms(2)
  have "for_each_message (format_message env params) (before @ message # rest) lastUid []
      = (Some (uid message), Inl parse_error)"
    by (simp add: for_each_append)
  with assms(1) show ?thesis
    by (simp add: getNewEmails_def)
qed

theorem missing_section_is_parse_error_witness:
  "returned (getNewEmails (example_env [text_message 5, empty_message 7, text_message 9])
      (example_params Resolved Nothing) [] (Some 3)) = Inl parse_error"
  by (rule missing_section_is_parse_error[where before = "[]"
        and message = "text_message 5" and rest = "[empty_message 7, text_message 9]"
        and ?h1.0 = "Some 3" and evs = "[]"])
     (simp_all add: example_defs)

text \<open>
  The format \<^verbatim>\<open>simple\<close> has no such check: a message with a section \<^verbatim>\<open>HEADER\<close> and
  without a section \<^verbatim>\<open>TEXT\<close> is formatted and returned.
\<close>

theorem simple_without_text_counterexample:
  "find (\<lambda>part. which part = ''TEXT'') (parts (header_message 4)) = None
   \<and> returned (getNewEmails (example_env [header_message 4])
        (example_params Simple Nothing) [] None)
     = Inr [\<lparr> json = SimpleJson [] [] [(''x-mailer'', ''m'')] [(''subject'', ''hi'')],
              binary = None \<rparr>]"
  by (simp add: example_defs format_defs)

text \<open>
  In the format \<^verbatim>\<open>simple\<close>, a message without a section \<^verbatim>\<open>HEADER\<close> makes the cycle
  throw as well, but a \<^verbatim>\<open>TypeError\<close>: \<^verbatim>\<open>messageHeader[0]\<close> is \<^verbatim>\<open>undefined\<close>.
\<close>

lemma simple_without_header_type_error:
  "returned (getNewEmails (example_env [empty_message 4]) (example_params Simple Nothing) [] None)
     = Inl TypeError"
  by (simp add: example_defs format_defs)

text \<open>
  For a message whose \<^verbatim>\<open>struct\<close> is absent, \<^verbatim>\<open>getText\<close> returns the empty string
  and \<^verbatim>\<open>getAttachment\<close> the empty list, whatever the parts. But the loop body of the
  format \<^verbatim>\<open>simple\<close> calls \<^verbatim>\<open>getParts(message.attributes.struct!)\<close> before either of
  them: when that throws, the formatting of the message throws the same error.
\<close>

lemma guards_return_empty:
  "struct message = None \<Longrightarrow>
     getText env ps message sub = [] \<and> getAttachment env ps message = Inr []"
  by (simp add: getText_def getAttachment_def)

lemma getParts_throws_first:
  "getParts env (struct message) = Inl e \<Longrightarrow>
     format_simple env download prefixName message = Inl e"
  by (simp add: format_simple_def)

text \<open>
  C9. In the format \<^verbatim>\<open>simple\<close>, a message with its header and without
  \<^verbatim>\<open>struct\<close>, for which \<^verbatim>\<open>getText\<close> and \<^verbatim>\<open>getAttachment\<close> would return the
  empty string and the empty list, makes the fetch cycle fail with the \<^verbatim>\<open>TypeError\<close>
  that \<^verbatim>\<open>getParts\<close> throws on the absent structure.
\<close>

theorem absent_struct_fails_cycle:
  "getText (example_env [(header_message 4)\<lparr> struct := None \<rparr>]) [html_part]
      ((header_message 4)\<lparr> struct := None \<rparr>) ''html'' = []
   \<and> getAttachment (example_env [(header_message 4)\<lparr> struct := None \<rparr>]) [attachment_part]
      ((header_message 4)\<lparr> struct := None \<rparr>) = Inr []
   \<and> returned (getNewEmails (example_env [(header_message 4)\<lparr> struct := None \<rparr>])
        (example_params Simple Nothing) [] None) = Inl TypeError"
  by (simp add: example_defs format_defs)

text \<open>
  An attachment part whose disposition has no parameters: the promise made for it rejects
  with a \<^verbatim>\<open>TypeError\<close> once its data has arrived.
\<close>

lemma attachment_without_params_throws:
  "getPartData env message part = Inr partData \<Longrightarrow>
   disposition part = Some \<lparr> dtype = t, disp_params = None \<rparr> \<Longrightarrow>
     fetch_attachment env message part = Inl TypeError"
  by (simp add: fetch_attachment_def)

text \<open>
  C10. In the format \<^verbatim>\<open>simple\<close> with attachment download, and in \<^verbatim>\<open>parseRawEmail\<close>,
  the event has no \<^verbatim>\<open>binary\<close> when no attachment was extracted; otherwise \<^verbatim>\<open>binary\<close>
  holds exactly the extracted attachments, the one at index \<open>i\<close> (from zero) under the key
  \<^verbatim>\<open>`${prefix}${i}`\<close>.
\<close>

theorem binary_iff_attachments:
  "(format_simple env True prefixName message = Inr newEmail
      \<and> getParts env (struct message) = Inr ps
      \<and> getAttachment env ps message = Inr found
    \<longrightarrow> binary newEmail =
          (if found = [] then None
           else Some (zip (map (\<lambda>i. prefixName @ decimal i) [0..<length found]) found)))
   \<and> (parseRawEmail env messageEncoded prefixName = Inr parsed
      \<and> simpleParser env messageEncoded = Inr responseData
    \<longrightarrow> (\<exists>handles.
           map (\<lambda>a. prepareBinaryData env (content a) (att_filename a) (Some (contentType a)))
             (case attachments responseData of None \<Rightarrow> [] | Some atts \<Rightarrow> atts)
           = map Inr handles
         \<and> binary parsed =
             (if handles = [] then None
              else Some (zip (map (\<lambda>i. prefixName @ decimal i) [0..<length handles]) handles))))"
proof (intro conjI impI)
  assume a: "format_simple env True prefixName message = Inr newEmail
      \<and> getParts env (struct message) = Inr ps
      \<and> getAttachment env ps message = Inr found"
  then have "binary newEmail
      = (if length found \<noteq> 0 then Some (store_binaries prefixName found 0 []) else None)"
    by (auto simp: format_simple_def Let_def split: list.splits)
  then show "binary newEmail =
          (if found = [] then None
           else Some (zip (map (\<lambda>i. prefixName @ decimal i) [0..<length found]) found))"
    by (simp add: store_binaries_zip keys_from_def)
next
  assume a: "parseRawEmail env messageEncoded prefixName = Inr parsed
      \<and> simpleParser env messageEncoded = Inr responseData"
  let ?prep = "\<lambda>a. prepareBinaryData env (content a) (att_filename a) (Some (contentType a))"
  show "\<exists>handles. map ?prep (case attachments responseData of None \<Rightarrow> [] | Some atts \<Rightarrow> atts)
           = map Inr handles
         \<and> binary parsed =
             (if handles = [] then None
              else Some (zip (map (\<lambda>i. prefixName @ decimal i) [0..<length handles]) handles))"
  proof (cases "attachments responseData")
    case None
    with a have "binary parsed = None"
      by (auto simp: parseRawEmail_def Let_def)
    with None show ?thesis by (intro exI[of _ "[]"]) simp
  next
    case (Some atts)
    with a obtain res where
      r: "store_attachments env prefixName atts 0 [] = Inr res"
      and bp: "binary parsed = (if length res \<noteq> 0 then Some res else None)"
      by (auto simp: parseRawEmail_def Let_def split: sum.splits)
    from store_attachments_zip[OF _ r] obtain handles where
      h: "map ?prep atts = map Inr handles" "res = zip (keys_from prefixName 0 (length handles)) handles"
      by auto
    show ?thesis
      using h bp Some by (intro exI[of _ handles]) (auto simp: keys_from_def)
  qed
qed


theorem binary_iff_attachments_witness:
  "binary (projr (format_simple attachment_env True ''attachment_''
             (header_message 4)))
     = Some [(''attachment_0'', ''pdf'')]
   \<and> binary (projr (parseRawEmail attachment_env (Buffer ''raw'') ''attachment_''))
     = Some [(''attachment_0'', ''one''), (''attachment_1'', ''two'')]"
proof -
  let ?m = "header_message 4"
  have s: "format_simple attachment_env True ''attachment_'' ?m
      = Inr (projr (format_simple attachment_env True ''attachment_'' ?m))
    \<and> getParts attachment_env (struct ?m) = Inr [html_part, attachment_part]
    \<and> getAttachment attachment_env [html_part, attachment_part] ?m = Inr [''pdf'']"
    by (simp add: format_defs)
  have r: "parseRawEmail attachment_env (Buffer ''raw'') ''attachment_''
      = Inr (projr (parseRawEmail attachment_env (Buffer ''raw'') ''attachment_''))
    \<and> simpleParser attachment_env (Buffer ''raw'')
      = Inr \<lparr> headerLines = [(''subject'', ''Subject: hi'')],
              attachments = Some [\<lparr> content = ''one'', att_filename = None,
                                    contentType = ''text/plain'' \<rparr>,
                                  \<lparr> content = ''two'', att_filename = None,
                                    contentType = ''text/plain'' \<rparr>],
              other_fields = () \<rparr>"
    by (simp add: format_defs)
  note t = binary_iff_attachments[of attachment_env "''attachment_''" ?m _ _ _ "Buffer ''raw''"]
  from t[THEN conjunct1, rule_format, OF s]
  have a: "binary (projr (format_simple attachment_env True ''attachment_'' ?m))
     = Some [(''attachment_0'', ''pdf'')]"
    by (simp add: decimal.simps digit_char_def)
  from t[THEN conjunct2, rule_format, OF r]
  have b: "binary (projr (parseRawEmail attachment_env (Buffer ''raw'') ''attachment_''))
     = Some [(''attachment_0'', ''one''), (''attachment_1'', ''two'')]"
    by (auto simp: attachment_env_def decimal.simps digit_char_def upt_rec)
  from a b show ?thesis by simp
qed

end
